theory Spec2Isabelle
  imports Main
begin

section \<open>Data model\<close>

text \<open>
  The plugin exists in three variants in the repository: \<^verbatim>\<open>main.ts\<close> (TypeScript),
  the JavaScript file \<^verbatim>\<open>unnamed/part_000\<close> and \<^verbatim>\<open>src/main.js\<close>. The first two share
  their fields and are embedded below; a function that differs between them is embedded
  once per file, with the suffix \<open>_ts\<close> for \<^verbatim>\<open>main.ts\<close> and \<open>_p0\<close> for
  \<^verbatim>\<open>unnamed/part_000\<close>. \<^verbatim>\<open>save\<close> and \<^verbatim>\<open>renameFile\<close> have the same text in all three files,
  and \<^verbatim>\<open>saveSettings\<close> of \<^verbatim>\<open>src/main.js\<close> is that of \<^verbatim>\<open>unnamed/part_000\<close>. The restoration
  of \<^verbatim>\<open>src/main.js\<close> runs on timers of the host and is not embedded.
\<close>

text \<open>Obsidian's \<^verbatim>\<open>EditorPosition\<close>: \<^verbatim>\<open>{ line: number, ch: number }\<close>.\<close>

record EditorPosition =
  line :: nat
  ch :: nat

text \<open>\<^verbatim>\<open>type CursorInfo = { file: string, cursor: EditorPosition }\<close>; the field \<^verbatim>\<open>file\<close> is
  written \<open>file'\<close>.\<close>

record CursorInfo =
  file' :: string
  cursor :: EditorPosition

text \<open>\<^verbatim>\<open>type ActiveFileInfo = { path: string, initialCursorHasBeenSet: boolean }\<close>\<close>

record ActiveFileInfo =
  path :: string
  initialCursorHasBeenSet :: bool

text \<open>\<^verbatim>\<open>interface CursorTrackerSettings { fileCursors: CursorInfo[] }\<close>\<close>

record CursorTrackerSettings =
  fileCursors :: "CursorInfo list"

section \<open>The recency cache\<close>

text \<open>
  The cache is \<^verbatim>\<open>new QuickLRU({ maxSize: 50 })\<close>. The class comes from the package
  \<^verbatim>\<open>quick-lru\<close>, whose code is not part of the sources; its operations are modelled from
  the contract the specification gives for the bounded recency cache. A cache is the
  list of its entries, least recently used first.
\<close>

type_synonym ('k, 'v) QuickLRU = "('k \<times> 'v) list"

text \<open>Modelled from the spec: the capacity, \<^verbatim>\<open>maxSize: 50\<close> in the constructor call of
  \<^verbatim>\<open>main.ts\<close> line 21 (QuickLRU itself is missing).\<close>

definition lru_maxSize :: nat where
  "lru_maxSize = 50"

text \<open>Modelled from the spec: QuickLRU's constructor is missing; the cache is created empty.\<close>

definition lru_new :: "('k, 'v) QuickLRU" where
  "lru_new = []"

text \<open>Modelled from the spec: QuickLRU's \<^verbatim>\<open>size\<close> is missing; the number of entries.\<close>

definition lru_size :: "('k, 'v) QuickLRU \<Rightarrow> nat" where
  "lru_size c = length c"

text \<open>Modelled from the spec: QuickLRU's \<^verbatim>\<open>has\<close> is missing; true iff the key has an
  entry, recency unaffected.\<close>

definition lru_has :: "'k \<Rightarrow> ('k, 'v) QuickLRU \<Rightarrow> bool" where
  "lru_has k c = (map_of c k \<noteq> None)"

text \<open>Modelled from the spec: the entries of a cache other than the one of key \<open>k\<close>, in
  their order (a helper of the three operations below, which are missing).\<close>

definition lru_without :: "'k \<Rightarrow> ('k, 'v) QuickLRU \<Rightarrow> ('k, 'v) QuickLRU" where
  "lru_without k c = filter (\<lambda>e. fst e \<noteq> k) c"

text \<open>Modelled from the spec: QuickLRU's \<^verbatim>\<open>get\<close> is missing; it returns the stored
  position and promotes the key to most recently used, and returns nothing (JavaScript's
  \<^verbatim>\<open>undefined\<close>) for a key with no entry.\<close>

definition lru_get :: "'k \<Rightarrow> ('k, 'v) QuickLRU \<Rightarrow> 'v option \<times> ('k, 'v) QuickLRU" where
  "lru_get k c =
     (case map_of c k of
        None \<Rightarrow> (None, c)
      | Some v \<Rightarrow> (Some v, lru_without k c @ [(k, v)]))"

text \<open>Modelled from the spec: QuickLRU's \<^verbatim>\<open>set\<close> is missing; it inserts or overwrites the
  entry, promotes it to most recently used and, when the size then exceeds the capacity,
  evicts the least recently used entry.\<close>

definition lru_set :: "'k \<Rightarrow> 'v \<Rightarrow> ('k, 'v) QuickLRU \<Rightarrow> ('k, 'v) QuickLRU" where
  "lru_set k v c =
     (let c' = lru_without k c @ [(k, v)]
      in if lru_maxSize < length c' then tl c' else c')"

text \<open>Modelled from the spec: QuickLRU's \<^verbatim>\<open>delete\<close> is missing; it removes the entry if
  there is one.\<close>

definition lru_delete :: "'k \<Rightarrow> ('k, 'v) QuickLRU \<Rightarrow> ('k, 'v) QuickLRU" where
  "lru_delete k c = lru_without k c"

text \<open>Modelled from the spec: QuickLRU's \<^verbatim>\<open>entriesAscending\<close> is missing; the entries,
  least recently used first.\<close>

definition entriesAscending :: "('k, 'v) QuickLRU \<Rightarrow> ('k \<times> 'v) list" where
  "entriesAscending c = c"

text \<open>A sequence of \<^verbatim>\<open>set\<close> calls, first call first, on a cache.\<close>

definition lru_sets :: "('k \<times> 'v) list \<Rightarrow> ('k, 'v) QuickLRU \<Rightarrow> ('k, 'v) QuickLRU" where
  "lru_sets kvs c = foldl (\<lambda>c' kv. lru_set (fst kv) (snd kv) c') c kvs"

section \<open>The plugin and its host\<close>

text \<open>Modelled from the spec: Obsidian's \<^verbatim>\<open>debounce(cb, timeout, resetTimer)\<close> is missing. The
  function it returns either has no timer pending or has one; a call while none is pending
  starts one, a call while one is pending is absorbed by it.\<close>

datatype Debouncer = Idle | Armed

text \<open>The active Markdown view as the handlers read it: \<^verbatim>\<open>view.file\<close> (its path, when the view
  has a file) and \<^verbatim>\<open>view.editor.getCursor()\<close>.\<close>

record MarkdownView =
  viewFile :: "string option"
  editorCursor :: EditorPosition

text \<open>
  The class \<^verbatim>\<open>CursorTrackerPlugin\<close>: its five fields, and what the handlers read from and do
  to the host through \<^verbatim>\<open>this.app\<close> and the inherited \<^verbatim>\<open>Plugin\<close>:
  \<^item> \<open>activeView\<close> is \<^verbatim>\<open>this.app.workspace.getActiveViewOfType(MarkdownView)\<close>;
  \<^item> \<open>savedData\<close> lists the arguments of the calls of \<^verbatim>\<open>this.saveData\<close>, first call first;
  \<^item> \<open>cursorMoves\<close> lists the arguments of the calls of \<^verbatim>\<open>view.editor.setCursor\<close>;
  \<^item> \<open>timersStarted\<close> counts the timers that debounced functions have started;
  \<^item> \<open>saveRequests\<close> counts the calls of \<^verbatim>\<open>saveSettings\<close>.
\<close>

record CursorTrackerPlugin =
  settings :: CursorTrackerSettings
  lru :: "(string, EditorPosition) QuickLRU"
  debounceSaveFn :: "Debouncer option"
  layoutReady :: bool
  activeFile :: ActiveFileInfo
  activeView :: "MarkdownView option"
  savedData :: "CursorTrackerSettings list"
  cursorMoves :: "EditorPosition list"
  timersStarted :: nat
  saveRequests :: nat

text \<open>The field initialisers of the class (\<^verbatim>\<open>unnamed/part_000\<close> lines 30 to 54; \<^verbatim>\<open>main.ts\<close>
  leaves \<^verbatim>\<open>settings\<close> to \<^verbatim>\<open>loadSettings\<close>), in a host with no active view, nothing written and
  no timer started.\<close>

definition newPlugin :: CursorTrackerPlugin where
  "newPlugin =
     \<lparr>settings = \<lparr>fileCursors = []\<rparr>, lru = lru_new, debounceSaveFn = None,
      layoutReady = False, activeFile = \<lparr>path = [], initialCursorHasBeenSet = False\<rparr>,
      activeView = None, savedData = [], cursorMoves = [], timersStarted = 0,
      saveRequests = 0\<rparr>"

text \<open>\<^verbatim>\<open>loadSettings\<close> (\<^verbatim>\<open>main.ts\<close> lines 54 to 62, \<^verbatim>\<open>unnamed/part_000\<close> lines 84 to 94). Its
  first argument is what \<^verbatim>\<open>loadData\<close> returns: the stored settings, or nothing. The default
  that \<^verbatim>\<open>Object.assign\<close> starts from is an empty list in \<^verbatim>\<open>main.ts\<close> and the current settings
  in \<^verbatim>\<open>unnamed/part_000\<close>.\<close>

definition loadSettings_ts ::
  "CursorTrackerSettings option \<Rightarrow> CursorTrackerPlugin \<Rightarrow> CursorTrackerPlugin" where
  "loadSettings_ts data s =
     (let settings' = (case data of Some d \<Rightarrow> d | None \<Rightarrow> \<lparr>fileCursors = []\<rparr>)
      in s\<lparr>settings := settings',
           lru := lru_sets (map (\<lambda>cursorInfo. (file' cursorInfo, cursor cursorInfo))
                                (fileCursors settings')) (lru s)\<rparr>)"

definition loadSettings_p0 ::
  "CursorTrackerSettings option \<Rightarrow> CursorTrackerPlugin \<Rightarrow> CursorTrackerPlugin" where
  "loadSettings_p0 data s =
     (let settings' = (case data of Some d \<Rightarrow> d | None \<Rightarrow> settings s)
      in s\<lparr>settings := settings',
           lru := lru_sets (map (\<lambda>cursorInfo. (file' cursorInfo, cursor cursorInfo))
                                (fileCursors settings')) (lru s)\<rparr>)"

text \<open>The callback of \<^verbatim>\<open>onLayoutReady\<close>.\<close>

definition onLayoutReady :: "CursorTrackerPlugin \<Rightarrow> CursorTrackerPlugin" where
  "onLayoutReady s = s\<lparr>layoutReady := True\<rparr>"

subsection \<open>\<^verbatim>\<open>save\<close>\<close>

text \<open>The comparison loop of \<^verbatim>\<open>save\<close>, entered when the two arrays have the same length: it
  stops with \<^verbatim>\<open>updateSettings = true\<close> at the first index where the file, the column or
  the line differ.\<close>

fun fileCursorsDiffer :: "CursorInfo list \<Rightarrow> CursorInfo list \<Rightarrow> bool" where
  "fileCursorsDiffer (a # as) (b # bs) =
     (if file' a \<noteq> file' b \<or> ch (cursor a) \<noteq> ch (cursor b) \<or> line (cursor a) \<noteq> line (cursor b)
      then True
      else fileCursorsDiffer as bs)"
| "fileCursorsDiffer _ _ = False"

text \<open>The array \<^verbatim>\<open>fileCursors\<close> that \<^verbatim>\<open>save\<close> builds from \<^verbatim>\<open>this.lru.entriesAscending()\<close>.\<close>

definition serialize :: "(string, EditorPosition) QuickLRU \<Rightarrow> CursorInfo list" where
  "serialize c = map (\<lambda>entry. \<lparr>file' = fst entry, cursor = snd entry\<rparr>) (entriesAscending c)"

definition save :: "CursorTrackerPlugin \<Rightarrow> CursorTrackerPlugin" where
  "save s =
     (let fileCursors' = serialize (lru s);
          updateSettings =
            (if length (fileCursors (settings s)) = length fileCursors'
             then fileCursorsDiffer (fileCursors (settings s)) fileCursors'
             else True)
      in if updateSettings
         then s\<lparr>settings := (settings s)\<lparr>fileCursors := fileCursors'\<rparr>,
                savedData := savedData s @ [(settings s)\<lparr>fileCursors := fileCursors'\<rparr>]\<rparr>
         else s)"

subsection \<open>\<^verbatim>\<open>saveSettings\<close> and the debounced save\<close>

text \<open>Modelled from the spec: a call of the debounced function held in \<^verbatim>\<open>debounceSaveFn\<close>
  (Obsidian's \<^verbatim>\<open>debounce\<close> is missing): it starts a timer unless one is pending.\<close>

definition callDebounced :: "Debouncer \<Rightarrow> CursorTrackerPlugin \<Rightarrow> CursorTrackerPlugin" where
  "callDebounced d s =
     (case d of
        Idle \<Rightarrow> s\<lparr>debounceSaveFn := Some Armed, timersStarted := Suc (timersStarted s)\<rparr>
      | Armed \<Rightarrow> s)"

text \<open>\<^verbatim>\<open>saveSettings\<close> of \<^verbatim>\<open>main.ts\<close> (lines 64 to 80): with no debounced function yet it creates
  one and returns.\<close>

definition saveSettings_ts :: "CursorTrackerPlugin \<Rightarrow> CursorTrackerPlugin" where
  "saveSettings_ts s0 =
     (let s = s0\<lparr>saveRequests := Suc (saveRequests s0)\<rparr>
      in case debounceSaveFn s of
           Some d \<Rightarrow> callDebounced d s
         | None \<Rightarrow> s\<lparr>debounceSaveFn := Some Idle\<rparr>)"

text \<open>\<^verbatim>\<open>saveSettings\<close> of \<^verbatim>\<open>unnamed/part_000\<close> (lines 96 to 112; \<^verbatim>\<open>src/main.js\<close> has the same text):
  with no debounced function yet it creates one and calls it.\<close>

definition saveSettings_p0 :: "CursorTrackerPlugin \<Rightarrow> CursorTrackerPlugin" where
  "saveSettings_p0 s0 =
     (let s = s0\<lparr>saveRequests := Suc (saveRequests s0)\<rparr>
      in case debounceSaveFn s of
           Some d \<Rightarrow> callDebounced d s
         | None \<Rightarrow> callDebounced Idle (s\<lparr>debounceSaveFn := Some Idle\<rparr>))"

text \<open>Modelled from the spec: the timer of the debounced save (Obsidian's \<^verbatim>\<open>debounce\<close> is
  missing) fires if it is pending. What runs then is the callback the source gives to
  \<^verbatim>\<open>debounce\<close>: it sets \<^verbatim>\<open>debounceSaveFn\<close> to null and runs \<^verbatim>\<open>save\<close>.\<close>

definition fireDebounced :: "CursorTrackerPlugin \<Rightarrow> CursorTrackerPlugin" where
  "fireDebounced s =
     (case debounceSaveFn s of
        Some Armed \<Rightarrow> save (s\<lparr>debounceSaveFn := None\<rparr>)
      | Some Idle \<Rightarrow> s
      | None \<Rightarrow> s)"

text \<open>A burst of \<open>n\<close> calls of \<^verbatim>\<open>saveSettings\<close> with no timer firing in between.\<close>

definition burst_ts :: "nat \<Rightarrow> CursorTrackerPlugin \<Rightarrow> CursorTrackerPlugin" where
  "burst_ts n s = (saveSettings_ts ^^ n) s"

definition burst_p0 :: "nat \<Rightarrow> CursorTrackerPlugin \<Rightarrow> CursorTrackerPlugin" where
  "burst_p0 n s = (saveSettings_p0 ^^ n) s"

subsection \<open>\<^verbatim>\<open>updateCursorPosition\<close>\<close>

text \<open>The part of \<^verbatim>\<open>updateCursorPosition\<close> both files share: \<^verbatim>\<open>oldCursorPosition\<close> is read with
  \<^verbatim>\<open>get\<close> when \<^verbatim>\<open>has\<close> answers true, and stays undefined otherwise.\<close>

definition readOldCursorPosition ::
  "string \<Rightarrow> (string, EditorPosition) QuickLRU \<Rightarrow> EditorPosition option \<times> (string, EditorPosition) QuickLRU" where
  "readOldCursorPosition p c = (if lru_has p c then lru_get p c else (None, c))"

text \<open>\<^verbatim>\<open>updateCursorPosition\<close> of \<^verbatim>\<open>main.ts\<close> (lines 139 to 170). The branch for
  \<^verbatim>\<open>!this.activeFile.initialCursorHasBeenSet\<close> only logs, and the cache is written when the
  column and the line are equal.\<close>

definition updateCursorPosition_ts :: "CursorTrackerPlugin \<Rightarrow> CursorTrackerPlugin" where
  "updateCursorPosition_ts s =
     (if \<not> layoutReady s then s
      else case activeView s of
        None \<Rightarrow> s
      | Some activeLeaf \<Rightarrow>
          (case viewFile activeLeaf of
             None \<Rightarrow> s
           | Some p \<Rightarrow>
               if p \<noteq> path (activeFile s) then s
               else
                 (let r = readOldCursorPosition p (lru s);
                      s1 = s\<lparr>lru := snd r\<rparr>;
                      currentCursorPosition = editorCursor activeLeaf
                  in case fst r of
                       None \<Rightarrow> s1
                     | Some oldCursorPosition \<Rightarrow>
                         if ch currentCursorPosition = ch oldCursorPosition \<and>
                            line currentCursorPosition = line oldCursorPosition
                         then saveSettings_ts (s1\<lparr>lru := lru_set p currentCursorPosition (lru s1)\<rparr>)
                         else s1)))"

text \<open>\<^verbatim>\<open>updateCursorPosition\<close> of \<^verbatim>\<open>unnamed/part_000\<close> (lines 183 to 216).\<close>

definition updateCursorPosition_p0 :: "CursorTrackerPlugin \<Rightarrow> CursorTrackerPlugin" where
  "updateCursorPosition_p0 s =
     (if \<not> layoutReady s then s
      else case activeView s of
        None \<Rightarrow> s
      | Some activeLeaf \<Rightarrow>
          (case viewFile activeLeaf of
             None \<Rightarrow> s
           | Some p \<Rightarrow>
               if p \<noteq> path (activeFile s) then s
               else if \<not> initialCursorHasBeenSet (activeFile s) then s
               else
                 (let r = readOldCursorPosition p (lru s);
                      s1 = s\<lparr>lru := snd r\<rparr>;
                      currentCursorPosition = editorCursor activeLeaf
                  in case fst r of
                       None \<Rightarrow>
                         saveSettings_p0 (s1\<lparr>lru := lru_set p currentCursorPosition (lru s1)\<rparr>)
                     | Some oldCursorPosition \<Rightarrow>
                         if ch currentCursorPosition \<noteq> ch oldCursorPosition \<or>
                            line currentCursorPosition \<noteq> line oldCursorPosition
                         then saveSettings_p0 (s1\<lparr>lru := lru_set p currentCursorPosition (lru s1)\<rparr>)
                         else s1)))"

subsection \<open>Opening a document\<close>

text \<open>Modelled from the spec: the effect of \<^verbatim>\<open>view.editor.setCursor\<close> on the editor (the
  editor is the host's and missing): the caret of the active view moves to the position.\<close>

definition moveCaret :: "EditorPosition \<Rightarrow> CursorTrackerPlugin \<Rightarrow> CursorTrackerPlugin" where
  "moveCaret pos s =
     s\<lparr>activeView := map_option (\<lambda>v. v\<lparr>editorCursor := pos\<rparr>) (activeView s),
       cursorMoves := cursorMoves s @ [pos]\<rparr>"

text \<open>Modelled from the spec: \<^verbatim>\<open>view.editor.setCursor\<close> (the editor is missing) as the plugin of
  \<^verbatim>\<open>main.ts\<close> sees it. The editor notifies the registered extension of a programmatic move as
  of any other: \<^verbatim>\<open>update\<close> of \<^verbatim>\<open>cursor-tracker-extension\<close> sees \<^verbatim>\<open>selectionSet\<close> and calls
  \<^verbatim>\<open>plugin.updateCursorPosition()\<close> before \<^verbatim>\<open>setCursor\<close> returns.\<close>

definition setCursor_ts :: "EditorPosition \<Rightarrow> CursorTrackerPlugin \<Rightarrow> CursorTrackerPlugin" where
  "setCursor_ts pos s = updateCursorPosition_ts (moveCaret pos s)"

text \<open>Modelled from the spec: \<^verbatim>\<open>view.editor.setCursor\<close> (the editor is missing) as the plugin of
  \<^verbatim>\<open>unnamed/part_000\<close> sees it, with the same notification.\<close>

definition setCursor_p0 :: "EditorPosition \<Rightarrow> CursorTrackerPlugin \<Rightarrow> CursorTrackerPlugin" where
  "setCursor_p0 pos s = updateCursorPosition_p0 (moveCaret pos s)"

text \<open>The value of \<^verbatim>\<open>this.lru.get(path) ?? { ch: 0, line: 0 }\<close>.\<close>

definition orOrigin :: "EditorPosition option \<Rightarrow> EditorPosition" where
  "orOrigin r = (case r of Some pos \<Rightarrow> pos | None \<Rightarrow> \<lparr>line = 0, ch = 0\<rparr>)"

text \<open>\<^verbatim>\<open>onOpen\<close> of \<^verbatim>\<open>main.ts\<close> (lines 115 to 137). A caret is an object and so never falsy: the
  test of line 126 is the test for the origin. The other branch only logs.
  \<^verbatim>\<open>scrollIntoView\<close> changes nothing that is modelled.\<close>

definition onOpen_ts :: "CursorTrackerPlugin \<Rightarrow> CursorTrackerPlugin" where
  "onOpen_ts s =
     (case activeView s of
        None \<Rightarrow> s
      | Some view \<Rightarrow>
          (case viewFile view of
             None \<Rightarrow> s
           | Some p \<Rightarrow>
               if p \<noteq> [] \<and> lru_has p (lru s)
               then
                 (let r = lru_get p (lru s);
                      desiredCursorPosition = orOrigin (fst r);
                      s1 = s\<lparr>lru := snd r\<rparr>;
                      currentCursorPosition = editorCursor view
                  in if ch currentCursorPosition = 0 \<and> line currentCursorPosition = 0
                     then setCursor_ts desiredCursorPosition s1
                     else s1)
               else s))"

text \<open>\<^verbatim>\<open>onOpen\<close> of \<^verbatim>\<open>unnamed/part_000\<close> (lines 154 to 181): away from the origin it writes the
  caret into the cache and calls \<^verbatim>\<open>saveSettings\<close>.\<close>

definition onOpen_p0 :: "CursorTrackerPlugin \<Rightarrow> CursorTrackerPlugin" where
  "onOpen_p0 s =
     (case activeView s of
        None \<Rightarrow> s
      | Some view \<Rightarrow>
          (case viewFile view of
             None \<Rightarrow> s
           | Some p \<Rightarrow>
               if p \<noteq> [] \<and> lru_has p (lru s)
               then
                 (let r = lru_get p (lru s);
                      desiredCursorPosition = orOrigin (fst r);
                      s1 = s\<lparr>lru := snd r\<rparr>;
                      currentCursorPosition = editorCursor view
                  in if ch currentCursorPosition = 0 \<and> line currentCursorPosition = 0
                     then setCursor_p0 desiredCursorPosition s1
                     else saveSettings_p0 (s1\<lparr>lru := lru_set p currentCursorPosition (lru s1)\<rparr>))
               else s))"

text \<open>The handler of the event \<^verbatim>\<open>file-open\<close>, registered in \<^verbatim>\<open>onload\<close> (\<^verbatim>\<open>main.ts\<close> lines 30
  to 37, \<^verbatim>\<open>unnamed/part_000\<close> lines 60 to 67). Its argument is the path of the event's file,
  if it has one.\<close>

definition fileOpen_ts :: "string option \<Rightarrow> CursorTrackerPlugin \<Rightarrow> CursorTrackerPlugin" where
  "fileOpen_ts f s =
     (let s1 = s\<lparr>activeFile :=
                  \<lparr>path = (case f of Some p \<Rightarrow> p | None \<Rightarrow> []), initialCursorHasBeenSet = False\<rparr>\<rparr>;
          s2 = onOpen_ts s1
      in s2\<lparr>activeFile := (activeFile s2)\<lparr>initialCursorHasBeenSet := True\<rparr>\<rparr>)"

definition fileOpen_p0 :: "string option \<Rightarrow> CursorTrackerPlugin \<Rightarrow> CursorTrackerPlugin" where
  "fileOpen_p0 f s =
     (let s1 = s\<lparr>activeFile :=
                  \<lparr>path = (case f of Some p \<Rightarrow> p | None \<Rightarrow> []), initialCursorHasBeenSet = False\<rparr>\<rparr>;
          s2 = onOpen_p0 s1
      in s2\<lparr>activeFile := (activeFile s2)\<lparr>initialCursorHasBeenSet := True\<rparr>\<rparr>)"

text \<open>Modelled from the spec: the host (missing) shows the document of path \<open>p\<close>: its view
  becomes the active one, with the caret where the editor has put it.\<close>

definition showDocument :: "string \<Rightarrow> EditorPosition \<Rightarrow> CursorTrackerPlugin \<Rightarrow> CursorTrackerPlugin" where
  "showDocument p caret s = s\<lparr>activeView := Some \<lparr>viewFile = Some p, editorCursor = caret\<rparr>\<rparr>"

text \<open>The host opens a document: it shows it and delivers the event \<^verbatim>\<open>file-open\<close> for it.\<close>

definition openDocument_ts :: "string \<Rightarrow> EditorPosition \<Rightarrow> CursorTrackerPlugin \<Rightarrow> CursorTrackerPlugin" where
  "openDocument_ts p caret s = fileOpen_ts (Some p) (showDocument p caret s)"

definition openDocument_p0 :: "string \<Rightarrow> EditorPosition \<Rightarrow> CursorTrackerPlugin \<Rightarrow> CursorTrackerPlugin" where
  "openDocument_p0 p caret s = fileOpen_p0 (Some p) (showDocument p caret s)"

subsection \<open>\<^verbatim>\<open>renameFile\<close>\<close>

text \<open>The cache after the three cache calls of \<^verbatim>\<open>renameFile\<close>, which has the same text in
  every file: \<^verbatim>\<open>get(oldPath)\<close>, \<^verbatim>\<open>delete(oldPath)\<close> and, when a position was read,
  \<^verbatim>\<open>set(newPath, cursorPosition)\<close>.\<close>

definition renameEntry ::
  "string \<Rightarrow> string \<Rightarrow> (string, EditorPosition) QuickLRU \<Rightarrow> (string, EditorPosition) QuickLRU" where
  "renameEntry newPath oldPath c =
     (let r = lru_get oldPath c;
          c1 = lru_delete oldPath (snd r)
      in case fst r of
           Some cursorPosition \<Rightarrow> lru_set newPath cursorPosition c1
         | None \<Rightarrow> c1)"

definition renameFile_ts :: "string \<Rightarrow> string \<Rightarrow> CursorTrackerPlugin \<Rightarrow> CursorTrackerPlugin" where
  "renameFile_ts newPath oldPath s =
     (if lru_has oldPath (lru s)
      then saveSettings_ts (s\<lparr>lru := renameEntry newPath oldPath (lru s)\<rparr>)
      else s)"

definition renameFile_p0 :: "string \<Rightarrow> string \<Rightarrow> CursorTrackerPlugin \<Rightarrow> CursorTrackerPlugin" where
  "renameFile_p0 newPath oldPath s =
     (if lru_has oldPath (lru s)
      then saveSettings_p0 (s\<lparr>lru := renameEntry newPath oldPath (lru s)\<rparr>)
      else s)"

section \<open>The specification's notions, and example states\<close>

text \<open>The specification's words for a changed snapshot, to be compared with the loop of
  \<^verbatim>\<open>save\<close>: the new serialization differs from the last persisted one in length or in some
  element's key, line or column.\<close>

definition snapshotDiffers :: "CursorInfo list \<Rightarrow> CursorInfo list \<Rightarrow> bool" where
  "snapshotDiffers old new =
     (length old \<noteq> length new \<or>
      (\<exists>i < length new.
         file' (old ! i) \<noteq> file' (new ! i) \<or>
         line (cursor (old ! i)) \<noteq> line (cursor (new ! i)) \<or>
         ch (cursor (old ! i)) \<noteq> ch (cursor (new ! i))))"

text \<open>A plugin whose cache holds a position for \<^verbatim>\<open>a.md\<close> that has not been saved yet.\<close>

definition cached_a :: "EditorPosition \<Rightarrow> CursorTrackerPlugin" where
  "cached_a pos = newPlugin\<lparr>lru := [(''a.md'', pos)]\<rparr>"

text \<open>The plugin after \<^verbatim>\<open>loadSettings\<close> has read stored settings with one position for
  \<^verbatim>\<open>a.md\<close>; with stored settings, \<^verbatim>\<open>loadSettings\<close> does the same in both files.\<close>

definition loaded_a :: "EditorPosition \<Rightarrow> CursorTrackerPlugin" where
  "loaded_a pos =
     loadSettings_ts (Some \<lparr>fileCursors = [\<lparr>file' = ''a.md'', cursor = pos\<rparr>]\<rparr>) newPlugin"

text \<open>Keys and positions for a run of insertions: key \<open>i\<close> with line \<open>i + 100\<close>.\<close>

definition numbered :: "nat \<Rightarrow> (nat \<times> nat) list" where
  "numbered n = map (\<lambda>i. (i, i + 100)) [0..<n]"

text \<open>The plugin \<open>loaded_a pos\<close> once the layout is ready.\<close>

definition ready_a :: "EditorPosition \<Rightarrow> CursorTrackerPlugin" where
  "ready_a pos = onLayoutReady (loaded_a pos)"

text \<open>The plugin \<open>ready_a pos\<close> with \<^verbatim>\<open>a.md\<close> the active file, its initial cursor set, and the
  caret of its view at \<open>caret\<close>.\<close>

definition settled_a :: "EditorPosition \<Rightarrow> EditorPosition \<Rightarrow> CursorTrackerPlugin" where
  "settled_a pos caret =
     (ready_a pos)\<lparr>activeFile := \<lparr>path = ''a.md'', initialCursorHasBeenSet = True\<rparr>,
                    activeView := Some \<lparr>viewFile = Some ''a.md'', editorCursor = caret\<rparr>\<rparr>"

text \<open>The plugin after stored settings with two positions have been loaded, \<^verbatim>\<open>a.md\<close> the least
  recently used, and the layout is ready.\<close>

definition ready_ab :: CursorTrackerPlugin where
  "ready_ab =
     onLayoutReady
       (loadSettings_ts
          (Some \<lparr>fileCursors = [\<lparr>file' = ''a.md'', cursor = \<lparr>line = 5, ch = 10\<rparr>\<rparr>,
                                \<lparr>file' = ''b.md'', cursor = \<lparr>line = 1, ch = 1\<rparr>\<rparr>]\<rparr>)
          newPlugin)"

text \<open>The host opens the documents of a list one after the other, each with its caret at the
  origin.\<close>

definition opens_ts :: "string list \<Rightarrow> CursorTrackerPlugin \<Rightarrow> CursorTrackerPlugin" where
  "opens_ts ps s = foldl (\<lambda>s' p. openDocument_ts p \<lparr>line = 0, ch = 0\<rparr> s') s ps"

definition opens_p0 :: "string list \<Rightarrow> CursorTrackerPlugin \<Rightarrow> CursorTrackerPlugin" where
  "opens_p0 ps s = foldl (\<lambda>s' p. openDocument_p0 p \<lparr>line = 0, ch = 0\<rparr> s') s ps"

section \<open>Properties of the recency cache\<close>

lemma lru_without_absent: "k \<notin> fst ` set c \<Longrightarrow> lru_without k c = c"
  by (induction c) (auto simp: lru_without_def)

lemma lru_without_length: "length (lru_without k c) \<le> length c"
  by (simp add: lru_without_def)

lemma lru_set_size: "lru_size c \<le> lru_maxSize \<Longrightarrow> lru_size (lru_set k v c) \<le> lru_maxSize"
proof -
  assume a: "lru_size c \<le> lru_maxSize"
  have "length (lru_without k c) \<le> lru_maxSize"
    using a lru_without_length [of k c] by (simp add: lru_size_def)
  then show ?thesis
    by (simp add: lru_set_def lru_size_def Let_def)
qed

lemma lru_get_size: "lru_size (snd (lru_get k c)) \<le> lru_size c"
proof (cases "map_of c k")
  case None
  then show ?thesis by (simp add: lru_get_def)
next
  case (Some v)
  then have "(k, v) \<in> set c" by (rule map_of_SomeD)
  then have "length (lru_without k c) < length c"
    unfolding lru_without_def by (rule length_filter_less) simp
  then show ?thesis using Some by (simp add: lru_get_def lru_size_def)
qed

lemma lru_delete_size: "lru_size (lru_delete k c) \<le> lru_size c"
  by (simp add: lru_delete_def lru_size_def lru_without_length)

lemma lru_sets_size: "lru_size c \<le> lru_maxSize \<Longrightarrow> lru_size (lru_sets kvs c) \<le> lru_maxSize"
  by (induction kvs arbitrary: c) (simp_all add: lru_sets_def lru_set_size)

lemma lru_sets_snoc: "lru_sets (kvs @ [(k, v)]) c = lru_set k v (lru_sets kvs c)"
  by (simp add: lru_sets_def)

lemma lru_sets_distinct:
  "distinct (map fst kvs) \<Longrightarrow> lru_sets kvs [] = drop (length kvs - lru_maxSize) kvs"
proof (induction kvs rule: rev_induct)
  case Nil
  show ?case by (simp add: lru_sets_def)
next
  case (snoc kv kvs)
  obtain k v where kv: "kv = (k, v)" by (cases kv)
  let ?d = "drop (length kvs - lru_maxSize) kvs"
  have pos: "Suc 0 - lru_maxSize = 0" by (simp add: lru_maxSize_def)
  from snoc.prems kv have dist: "distinct (map fst kvs)" and fresh: "k \<notin> fst ` set kvs"
    by auto
  have "fst ` set ?d \<subseteq> fst ` set kvs"
    by (meson image_mono set_drop_subset)
  with fresh have "k \<notin> fst ` set ?d" by blast
  then have wo: "lru_without k ?d = ?d" by (rule lru_without_absent)
  have "lru_sets (kvs @ [kv]) [] = lru_set k v ?d"
    using snoc.IH [OF dist] kv by (simp add: lru_sets_snoc)
  also have "\<dots> = drop (length (kvs @ [kv]) - lru_maxSize) (kvs @ [kv])"
  proof (cases "lru_maxSize \<le> length kvs")
    case True
    then have "length ?d = lru_maxSize" by simp
    then have "lru_set k v ?d = tl (?d @ [(k, v)])"
      by (simp add: lru_set_def wo Let_def)
    also have "\<dots> = drop 1 ?d @ [(k, v)]"
      using True by (cases ?d) (simp_all add: lru_maxSize_def)
    also have "\<dots> = drop (Suc (length kvs) - lru_maxSize) kvs @ [(k, v)]"
      using True by (simp add: Suc_diff_le)
    finally show ?thesis using True kv pos by (simp add: Suc_diff_le)
  next
    case False
    then have "?d = kvs" by simp
    with wo have "lru_without k kvs = kvs" by simp
    then show ?thesis using False kv by (simp add: lru_set_def Let_def)
  qed
  finally show ?case .
qed

lemma lru_has_iff: "lru_has k c \<longleftrightarrow> k \<in> fst ` set c"
  by (simp add: lru_has_def map_of_eq_None_iff)

lemma map_of_lru_without:
  "map_of (lru_without k c) k' = (if k' = k then None else map_of c k')"
  by (induction c) (auto simp: lru_without_def)

lemma lru_get_fst: "fst (lru_get k c) = map_of c k"
  by (simp add: lru_get_def split: option.splits)

lemma map_of_lru_get: "map_of (snd (lru_get k c)) k' = map_of c k'"
  by (auto simp: lru_get_def map_of_lru_without map_add_def split: option.splits)

lemma map_of_snoc_fresh: "map_of w k = None \<Longrightarrow> map_of (w @ [(k, v)]) k = Some v"
  by (simp add: map_add_def)

lemma map_of_tl_snoc:
  "w \<noteq> [] \<Longrightarrow> map_of w k = None \<Longrightarrow> map_of (tl (w @ [(k, v)])) k = Some v"
proof -
  assume ne: "w \<noteq> []" and none: "map_of w k = None"
  then obtain x xs where w: "w = x # xs" by (cases w) auto
  from none w have "map_of xs k = None" by (cases x) (simp split: if_splits)
  then show ?thesis by (simp add: w map_add_def)
qed

lemma map_of_lru_set_same: "map_of (lru_set k v c) k = Some v"
proof -
  let ?w = "lru_without k c"
  have none: "map_of ?w k = None" by (simp add: map_of_lru_without)
  show ?thesis
  proof (cases "lru_maxSize < length (?w @ [(k, v)])")
    case True
    then have "?w \<noteq> []" by (auto simp: lru_maxSize_def)
    then have "map_of (tl (?w @ [(k, v)])) k = Some v"
      using none by (rule map_of_tl_snoc)
    then show ?thesis using True by (simp add: lru_set_def Let_def)
  next
    case False
    then show ?thesis using none by (simp add: lru_set_def Let_def map_add_def)
  qed
qed






lemma loadSettings_stored: "loadSettings_p0 (Some d) s = loadSettings_ts (Some d) s"
  by (simp add: loadSettings_p0_def loadSettings_ts_def)

lemma saveSettings_p0_fields:
  "lru (saveSettings_p0 s) = lru s"
  "saveRequests (saveSettings_p0 s) = Suc (saveRequests s)"
  "debounceSaveFn (saveSettings_p0 s) = Some Armed"
  "settings (saveSettings_p0 s) = settings s"
  "savedData (saveSettings_p0 s) = savedData s"
  "activeView (saveSettings_p0 s) = activeView s"
  "activeFile (saveSettings_p0 s) = activeFile s"
  "cursorMoves (saveSettings_p0 s) = cursorMoves s"
  "layoutReady (saveSettings_p0 s) = layoutReady s"
  by (simp_all add: saveSettings_p0_def callDebounced_def Let_def split: option.splits Debouncer.splits)

lemma saveSettings_ts_fields:
  "lru (saveSettings_ts s) = lru s"
  "saveRequests (saveSettings_ts s) = Suc (saveRequests s)"
  "settings (saveSettings_ts s) = settings s"
  "savedData (saveSettings_ts s) = savedData s"
  "activeView (saveSettings_ts s) = activeView s"
  "activeFile (saveSettings_ts s) = activeFile s"
  "cursorMoves (saveSettings_ts s) = cursorMoves s"
  "layoutReady (saveSettings_ts s) = layoutReady s"
  by (simp_all add: saveSettings_ts_def callDebounced_def Let_def split: option.splits Debouncer.splits)

lemma CursorInfo_eq_iff:
  "(a :: CursorInfo) = b \<longleftrightarrow>
     file' a = file' b \<and> ch (cursor a) = ch (cursor b) \<and> line (cursor a) = line (cursor b)"
  by (cases a, cases b, cases "cursor a", cases "cursor b") auto

lemma fileCursorsDiffer_iff:
  "length xs = length ys \<Longrightarrow> fileCursorsDiffer xs ys \<longleftrightarrow> xs \<noteq> ys"
  by (induction xs ys rule: list_induct2) (auto simp: CursorInfo_eq_iff)

lemma snapshotDiffers_iff: "snapshotDiffers old new \<longleftrightarrow> old \<noteq> new"
proof (cases "length old = length new")
  case False
  then show ?thesis by (auto simp: snapshotDiffers_def)
next
  case True
  have "old \<noteq> new \<longleftrightarrow> (\<exists>i < length new. old ! i \<noteq> new ! i)"
    using True by (auto simp: list_eq_iff_nth_eq)
  then show ?thesis
    using True by (auto simp: snapshotDiffers_def CursorInfo_eq_iff)
qed

lemma save_unfold:
  "save s =
     (if fileCursors (settings s) = serialize (lru s) then s
      else s\<lparr>settings := (settings s)\<lparr>fileCursors := serialize (lru s)\<rparr>,
             savedData := savedData s @ [(settings s)\<lparr>fileCursors := serialize (lru s)\<rparr>]\<rparr>)"
  by (auto simp: save_def Let_def fileCursorsDiffer_iff)

lemma save_idem: "save (save s) = save s"
  by (simp add: save_unfold)

subsection \<open>Capacity and eviction\<close>

text \<open>
  Claim C1. For every sequence of \<^verbatim>\<open>set\<close> operations on a new cache, the size of the cache
  is at most 50; and after 51 insertions with distinct keys the key inserted first has no
  entry, while each of the other 50 keys has one, and \<^verbatim>\<open>get\<close> returns the position stored
  for it.
\<close>

theorem C1_capacity:
  "lru_size (lru_sets ops lru_new) \<le> 50 \<and>
   (distinct (map fst kvs) \<and> length kvs = 51 \<longrightarrow>
      \<not> lru_has (fst (hd kvs)) (lru_sets kvs lru_new) \<and>
      (\<forall>kv \<in> set (tl kvs).
         lru_has (fst kv) (lru_sets kvs lru_new) \<and>
         fst (lru_get (fst kv) (lru_sets kvs lru_new)) = Some (snd kv)))"
proof (intro conjI impI)
  have "lru_size (lru_new :: ('a, 'b) QuickLRU) \<le> lru_maxSize"
    by (simp add: lru_size_def lru_new_def)
  then have "lru_size (lru_sets ops lru_new) \<le> lru_maxSize"
    by (rule lru_sets_size)
  then show "lru_size (lru_sets ops lru_new) \<le> 50"
    by (simp add: lru_maxSize_def)
next
  assume a: "distinct (map fst kvs) \<and> length kvs = 51"
  then obtain x xs where kvs: "kvs = x # xs" by (cases kvs) auto
  from a have c: "lru_sets kvs lru_new = xs"
    by (simp add: lru_new_def lru_sets_distinct lru_maxSize_def kvs)
  from a kvs have fresh: "fst x \<notin> fst ` set xs" and dist: "distinct (map fst xs)" by auto
  show "\<not> lru_has (fst (hd kvs)) (lru_sets kvs lru_new)"
    using fresh by (simp add: c lru_has_iff) (simp add: kvs)
  show "\<forall>kv \<in> set (tl kvs).
         lru_has (fst kv) (lru_sets kvs lru_new) \<and>
         fst (lru_get (fst kv) (lru_sets kvs lru_new)) = Some (snd kv)"
  proof
    fix kv assume "kv \<in> set (tl kvs)"
    then have "kv \<in> set xs" by (simp add: kvs)
    then have "map_of xs (fst kv) = Some (snd kv)"
      using dist by simp
    then show "lru_has (fst kv) (lru_sets kvs lru_new) \<and>
         fst (lru_get (fst kv) (lru_sets kvs lru_new)) = Some (snd kv)"
      by (simp add: c lru_has_def lru_get_def)
  qed
qed

text \<open>The theorem at the keys 0 to 50: key 0 is gone, keys 1 and 50 are retrievable.\<close>

theorem C1_capacity_witness:
  "lru_size (lru_sets (numbered 51) lru_new) \<le> 50 \<and>
   \<not> lru_has 0 (lru_sets (numbered 51) lru_new) \<and>
   lru_has 1 (lru_sets (numbered 51) lru_new) \<and>
   fst (lru_get 1 (lru_sets (numbered 51) lru_new)) = Some 101 \<and>
   fst (lru_get 50 (lru_sets (numbered 51) lru_new)) = Some 150"
proof -
  have d: "distinct (map fst (numbered 51)) \<and> length (numbered 51) = 51"
    by (simp add: numbered_def comp_def)
  have h: "hd (numbered 51) = (0, 100)"
    by (simp add: numbered_def upt_rec)
  have m1: "(1, 101) \<in> set (tl (numbered 51))" and m50: "(50, 150) \<in> set (tl (numbered 51))"
    by (simp_all add: numbered_def upt_rec)
  show ?thesis
    using C1_capacity [of "numbered 51" "numbered 51"] d h m1 m50 by fastforce
qed

text \<open>
  Claim C7. Keys A, B, C and 47 further distinct keys are inserted in that order, which
  fills the cache; \<^verbatim>\<open>get(A)\<close> then returns A's position and promotes A, so that inserting a
  51st distinct key evicts B, the least recently used entry, and not A: the cache then
  holds the third to fiftieth entries, A and the new key, in that order.
\<close>

theorem C7_recency_promotion:
  "distinct (map fst kvs) \<and> length kvs = 50 \<and> k \<notin> fst ` set kvs \<longrightarrow>
     fst (lru_get (fst (kvs ! 0)) (lru_sets kvs lru_new)) = Some (snd (kvs ! 0)) \<and>
     entriesAscending (lru_set k v (snd (lru_get (fst (kvs ! 0)) (lru_sets kvs lru_new)))) =
       drop 2 kvs @ [kvs ! 0, (k, v)] \<and>
     \<not> lru_has (fst (kvs ! 1)) (lru_set k v (snd (lru_get (fst (kvs ! 0)) (lru_sets kvs lru_new)))) \<and>
     lru_has (fst (kvs ! 0)) (lru_set k v (snd (lru_get (fst (kvs ! 0)) (lru_sets kvs lru_new))))"
proof
  assume a: "distinct (map fst kvs) \<and> length kvs = 50 \<and> k \<notin> fst ` set kvs"
  then obtain ka va kb vb rest where kvs: "kvs = (ka, va) # (kb, vb) # rest"
    by (cases kvs; cases "tl kvs") auto
  from a have filled: "lru_sets kvs lru_new = kvs"
    by (simp add: lru_new_def lru_sets_distinct lru_maxSize_def)
  from a kvs have ka: "ka \<noteq> kb" "ka \<notin> fst ` set rest" and kb: "kb \<notin> fst ` set rest"
    and k: "k \<noteq> ka" "k \<noteq> kb" "k \<notin> fst ` set rest" and len: "length rest = 48"
    by auto
  have "lru_without ka ((kb, vb) # rest) = (kb, vb) # rest"
    using ka by (intro lru_without_absent) auto
  then have wo_a: "lru_without ka ((ka, va) # (kb, vb) # rest) = (kb, vb) # rest"
    by (simp add: lru_without_def)
  have got: "lru_get ka kvs = (Some va, (kb, vb) # rest @ [(ka, va)])"
    by (simp add: kvs lru_get_def wo_a)
  have wo_k: "lru_without k ((kb, vb) # rest @ [(ka, va)]) = (kb, vb) # rest @ [(ka, va)]"
    using k by (intro lru_without_absent) auto
  have final: "lru_set k v ((kb, vb) # rest @ [(ka, va)]) = rest @ [(ka, va), (k, v)]"
    using len by (simp add: lru_set_def wo_k Let_def lru_maxSize_def)
  have g: "lru_get (fst (kvs ! 0)) (lru_sets kvs lru_new) = (Some va, (kb, vb) # rest @ [(ka, va)])"
    using got by (simp add: filled) (simp add: kvs)
  show "fst (lru_get (fst (kvs ! 0)) (lru_sets kvs lru_new)) = Some (snd (kvs ! 0)) \<and>
     entriesAscending (lru_set k v (snd (lru_get (fst (kvs ! 0)) (lru_sets kvs lru_new)))) =
       drop 2 kvs @ [kvs ! 0, (k, v)] \<and>
     \<not> lru_has (fst (kvs ! 1)) (lru_set k v (snd (lru_get (fst (kvs ! 0)) (lru_sets kvs lru_new)))) \<and>
     lru_has (fst (kvs ! 0)) (lru_set k v (snd (lru_get (fst (kvs ! 0)) (lru_sets kvs lru_new))))"
    using ka kb k
    by (simp add: g final entriesAscending_def lru_has_iff) (auto simp: kvs)
qed

text \<open>The theorem at the keys 0 to 49 and the new key 50: key 1 is evicted, key 0 stays.\<close>

theorem C7_recency_promotion_witness:
  "fst (lru_get 0 (lru_sets (numbered 50) lru_new)) = Some 100 \<and>
   \<not> lru_has 1 (lru_set 50 150 (snd (lru_get 0 (lru_sets (numbered 50) lru_new)))) \<and>
   lru_has 0 (lru_set 50 150 (snd (lru_get 0 (lru_sets (numbered 50) lru_new))))"
proof -
  have d: "distinct (map fst (numbered 50)) \<and> length (numbered 50) = 50 \<and>
           50 \<notin> fst ` set (numbered 50)"
    by (auto simp: numbered_def comp_def)
  have n0: "numbered 50 ! 0 = (0, 100)" and n1: "numbered 50 ! 1 = (1, 101)"
    by (simp_all add: numbered_def)
  show ?thesis
    using C7_recency_promotion [of "numbered 50" 50 150] d n0 n1 by simp
qed

section \<open>Properties of the plugin\<close>

subsection \<open>Renaming\<close>




subsection \<open>Saving\<close>

text \<open>
  Claim C6, amended. \<^verbatim>\<open>save\<close> serializes the cache oldest first and writes to storage iff
  the new serialization differs from the last persisted snapshot in length or in some
  element's key, line or column; what it writes is the new serialization, and it leaves
  the cache alone. Hence two calls of \<^verbatim>\<open>save\<close> with no cache mutation in between perform
  at most one write: one when the serialization differed from the snapshot before the
  first call, none otherwise; the second call writes nothing.
\<close>

theorem C6_save_writes_iff_changed:
  "(snapshotDiffers (fileCursors (settings s)) (serialize (lru s)) \<longrightarrow>
      savedData (save s) = savedData s @ [(settings s)\<lparr>fileCursors := serialize (lru s)\<rparr>]) \<and>
   (\<not> snapshotDiffers (fileCursors (settings s)) (serialize (lru s)) \<longrightarrow>
      savedData (save s) = savedData s) \<and>
   savedData (save (save s)) = savedData (save s) \<and>
   lru (save s) = lru s \<and>
   length (savedData (save (save s))) =
     length (savedData s) +
     (if snapshotDiffers (fileCursors (settings s)) (serialize (lru s)) then 1 else 0)"
  by (simp add: save_idem snapshotDiffers_iff) (simp add: save_unfold)

text \<open>The theorem at a plugin whose cache holds an unsaved position (one write, then none)
  and at a new plugin (nothing to write).\<close>

theorem C6_save_writes_iff_changed_witness:
  "savedData (save (cached_a \<lparr>line = 2, ch = 2\<rparr>)) =
     [\<lparr>fileCursors = [\<lparr>file' = ''a.md'', cursor = \<lparr>line = 2, ch = 2\<rparr>\<rparr>]\<rparr>] \<and>
   savedData (save (save (cached_a \<lparr>line = 2, ch = 2\<rparr>))) =
     savedData (save (cached_a \<lparr>line = 2, ch = 2\<rparr>)) \<and>
   savedData (save newPlugin) = []"
  using C6_save_writes_iff_changed [of "cached_a \<lparr>line = 2, ch = 2\<rparr>"]
    C6_save_writes_iff_changed [of newPlugin]
  by (simp add: snapshotDiffers_def serialize_def entriesAscending_def cached_a_def
      newPlugin_def lru_new_def)

text \<open>The claim as stated fails where the cache equals the persisted snapshot before the
  first call: two calls of \<^verbatim>\<open>save\<close> on a new plugin write nothing, not once.\<close>

theorem C6_two_saves_no_write_counterexample:
  "savedData newPlugin = [] \<and> savedData (save (save newPlugin)) = []"
  by (simp add: save_unfold newPlugin_def serialize_def entriesAscending_def lru_new_def)

subsection \<open>The handlers of \<^verbatim>\<open>unnamed/part_000\<close>\<close>

text \<open>What the handlers of \<^verbatim>\<open>unnamed/part_000\<close> do, for every state: a move notification before
  the initial cursor is set changes nothing; one after it records the caret iff the cache
  has no equal position for the active file; opening a cached document restores its
  position when the caret is at the origin and requests no save, and otherwise writes the
  caret into the cache and requests a save; a burst of calls of \<^verbatim>\<open>saveSettings\<close> starts one
  timer, and when it fires the settings become the serialization of the cache at that
  time.\<close>

lemma EditorPosition_eq_iff: "(a :: EditorPosition) = b \<longleftrightarrow> ch a = ch b \<and> line a = line b"
  by (cases a, cases b) auto

lemma readOld_fst: "fst (readOldCursorPosition p c) = map_of c p"
  by (simp add: readOldCursorPosition_def lru_get_fst lru_has_def)

lemma readOld_map_of: "map_of (snd (readOldCursorPosition p c)) k = map_of c k"
  by (simp add: readOldCursorPosition_def map_of_lru_get)

lemma updateCursorPosition_p0_unsettled:
  "\<not> initialCursorHasBeenSet (activeFile s) \<Longrightarrow> updateCursorPosition_p0 s = s"
  by (simp add: updateCursorPosition_p0_def split: option.splits)

lemma updateCursorPosition_p0_settled:
  assumes "layoutReady s" and "activeView s = Some view" and "viewFile view = Some p"
    and "path (activeFile s) = p" and "initialCursorHasBeenSet (activeFile s)"
  shows "updateCursorPosition_p0 s =
     (if map_of (lru s) p = Some (editorCursor view)
      then s\<lparr>lru := snd (readOldCursorPosition p (lru s))\<rparr>
      else saveSettings_p0
             (s\<lparr>lru := lru_set p (editorCursor view) (snd (readOldCursorPosition p (lru s)))\<rparr>))"
  using assms
  by (auto simp: updateCursorPosition_p0_def Let_def readOld_fst EditorPosition_eq_iff
      split: option.splits)

lemma updateCursorPosition_p0_records:
  assumes "layoutReady s" and "activeView s = Some view" and "viewFile view = Some p"
    and "path (activeFile s) = p" and "initialCursorHasBeenSet (activeFile s)"
  shows "map_of (lru s) p \<noteq> Some (editorCursor view) \<Longrightarrow>
           map_of (lru (updateCursorPosition_p0 s)) p = Some (editorCursor view) \<and>
           saveRequests (updateCursorPosition_p0 s) = Suc (saveRequests s) \<and>
           debounceSaveFn (updateCursorPosition_p0 s) = Some Armed"
    and "map_of (lru s) p = Some (editorCursor view) \<Longrightarrow>
           map_of (lru (updateCursorPosition_p0 s)) p = Some (editorCursor view) \<and>
           saveRequests (updateCursorPosition_p0 s) = saveRequests s \<and>
           debounceSaveFn (updateCursorPosition_p0 s) = debounceSaveFn s \<and>
           timersStarted (updateCursorPosition_p0 s) = timersStarted s"
  by (simp_all add: updateCursorPosition_p0_settled [OF assms] saveSettings_p0_fields
      map_of_lru_set_same readOld_map_of)


lemma setCursor_p0_unsettled:
  "\<not> initialCursorHasBeenSet (activeFile s) \<Longrightarrow> setCursor_p0 pos s = moveCaret pos s"
  by (simp add: setCursor_p0_def moveCaret_def updateCursorPosition_p0_unsettled)

lemmas openDocument_p0_defs =
  openDocument_p0_def fileOpen_p0_def showDocument_def onOpen_p0_def Let_def

lemma openDocument_p0_restore:
  assumes "p \<noteq> []" and "map_of (lru s) p = Some v"
  shows "cursorMoves (openDocument_p0 p \<lparr>line = 0, ch = 0\<rparr> s) = cursorMoves s @ [v]"
    and "activeView (openDocument_p0 p \<lparr>line = 0, ch = 0\<rparr> s) =
           Some \<lparr>viewFile = Some p, editorCursor = v\<rparr>"
    and "activeFile (openDocument_p0 p \<lparr>line = 0, ch = 0\<rparr> s) =
           \<lparr>path = p, initialCursorHasBeenSet = True\<rparr>"
    and "lru (openDocument_p0 p \<lparr>line = 0, ch = 0\<rparr> s) = lru_without p (lru s) @ [(p, v)]"
    and "layoutReady (openDocument_p0 p \<lparr>line = 0, ch = 0\<rparr> s) = layoutReady s"
  using assms
  by (simp_all add: openDocument_p0_defs setCursor_p0_unsettled moveCaret_def lru_has_def
      lru_get_def orOrigin_def)

lemma openDocument_p0_origin_frame:
  "saveRequests (openDocument_p0 p \<lparr>line = 0, ch = 0\<rparr> s) = saveRequests s \<and>
   timersStarted (openDocument_p0 p \<lparr>line = 0, ch = 0\<rparr> s) = timersStarted s \<and>
   debounceSaveFn (openDocument_p0 p \<lparr>line = 0, ch = 0\<rparr> s) = debounceSaveFn s \<and>
   settings (openDocument_p0 p \<lparr>line = 0, ch = 0\<rparr> s) = settings s \<and>
   savedData (openDocument_p0 p \<lparr>line = 0, ch = 0\<rparr> s) = savedData s"
  by (simp add: openDocument_p0_defs setCursor_p0_unsettled moveCaret_def)

lemma opens_p0_frame:
  "saveRequests (opens_p0 ps s) = saveRequests s \<and>
   timersStarted (opens_p0 ps s) = timersStarted s \<and>
   debounceSaveFn (opens_p0 ps s) = debounceSaveFn s \<and>
   settings (opens_p0 ps s) = settings s \<and>
   savedData (opens_p0 ps s) = savedData s"
  by (induction ps arbitrary: s) (simp_all add: opens_p0_def openDocument_p0_origin_frame)

lemma openDocument_p0_override:
  assumes "p \<noteq> []" and "lru_has p (lru s)" and "\<not> (ch caret = 0 \<and> line caret = 0)"
  shows "map_of (lru (openDocument_p0 p caret s)) p = Some caret"
    and "saveRequests (openDocument_p0 p caret s) = Suc (saveRequests s)"
    and "debounceSaveFn (openDocument_p0 p caret s) = Some Armed"
    and "cursorMoves (openDocument_p0 p caret s) = cursorMoves s"
    and "activeView (openDocument_p0 p caret s) = Some \<lparr>viewFile = Some p, editorCursor = caret\<rparr>"
    and "activeFile (openDocument_p0 p caret s) = \<lparr>path = p, initialCursorHasBeenSet = True\<rparr>"
  using assms
  by (auto simp: openDocument_p0_defs saveSettings_p0_fields map_of_lru_set_same)

lemma burst_p0_Suc:
  "debounceSaveFn (burst_p0 (Suc n) s) = Some Armed \<and>
   timersStarted (burst_p0 (Suc n) s) =
     (case debounceSaveFn s of Some Armed \<Rightarrow> timersStarted s | _ \<Rightarrow> Suc (timersStarted s)) \<and>
   saveRequests (burst_p0 (Suc n) s) = saveRequests s + Suc n \<and>
   lru (burst_p0 (Suc n) s) = lru s \<and>
   settings (burst_p0 (Suc n) s) = settings s \<and>
   savedData (burst_p0 (Suc n) s) = savedData s"
proof (induction n)
  case 0
  show ?case
    by (simp add: burst_p0_def saveSettings_p0_def callDebounced_def Let_def
        split: option.splits Debouncer.splits)
next
  case (Suc n)
  have "burst_p0 (Suc (Suc n)) s = saveSettings_p0 (burst_p0 (Suc n) s)"
    by (simp add: burst_p0_def)
  then show ?case
    using Suc
    by (simp add: saveSettings_p0_def callDebounced_def Let_def
        split: option.splits Debouncer.splits)
qed

lemma save_settings: "fileCursors (settings (save s)) = serialize (lru s)"
  by (simp add: save_unfold)

lemma fireDebounced_armed:
  "debounceSaveFn s = Some Armed \<Longrightarrow>
     fireDebounced s = save (s\<lparr>debounceSaveFn := None\<rparr>) \<and>
     debounceSaveFn (fireDebounced s) = None \<and>
     fileCursors (settings (fireDebounced s)) = serialize (lru s) \<and>
     lru (fireDebounced s) = lru s"
  by (simp add: fireDebounced_def save_unfold)

lemma openDocument_p0_echo_dropped:
  assumes "p \<noteq> []" and "map_of (lru s) p = Some v"
  shows "initialCursorHasBeenSet (activeFile (openDocument_p0 p \<lparr>line = 0, ch = 0\<rparr> s))"
    and "map_of (lru (openDocument_p0 p \<lparr>line = 0, ch = 0\<rparr> s)) p = Some v"
    and "saveRequests (openDocument_p0 p \<lparr>line = 0, ch = 0\<rparr> s) = saveRequests s"
    and "saveRequests (updateCursorPosition_p0 (openDocument_p0 p \<lparr>line = 0, ch = 0\<rparr> s)) =
           saveRequests s"
    and "map_of (lru (updateCursorPosition_p0 (openDocument_p0 p \<lparr>line = 0, ch = 0\<rparr> s))) p =
           Some v"
proof -
  let ?s' = "openDocument_p0 p \<lparr>line = 0, ch = 0\<rparr> s"
  note r = openDocument_p0_restore [OF assms]
  show f: "initialCursorHasBeenSet (activeFile ?s')" by (simp add: r)
  show m: "map_of (lru ?s') p = Some v" by (simp add: r map_of_lru_without map_add_def)
  show q: "saveRequests ?s' = saveRequests s" by (simp add: openDocument_p0_origin_frame)
  show "saveRequests (updateCursorPosition_p0 ?s') = saveRequests s"
    and "map_of (lru (updateCursorPosition_p0 ?s')) p = Some v"
  proof (atomize (full), cases "layoutReady ?s'")
    case False
    then have "updateCursorPosition_p0 ?s' = ?s'" by (simp add: updateCursorPosition_p0_def)
    then show "saveRequests (updateCursorPosition_p0 ?s') = saveRequests s \<and>
      map_of (lru (updateCursorPosition_p0 ?s')) p = Some v" using m q by simp
  next
    case True
    have "map_of (lru (updateCursorPosition_p0 ?s')) p =
            Some (editorCursor \<lparr>viewFile = Some p, editorCursor = v\<rparr>) \<and>
          saveRequests (updateCursorPosition_p0 ?s') = saveRequests ?s' \<and>
          debounceSaveFn (updateCursorPosition_p0 ?s') = debounceSaveFn ?s' \<and>
          timersStarted (updateCursorPosition_p0 ?s') = timersStarted ?s'"
      by (rule updateCursorPosition_p0_records(2) [OF True r(2)]) (simp_all add: r(3) m)
    then show "saveRequests (updateCursorPosition_p0 ?s') = saveRequests s \<and>
      map_of (lru (updateCursorPosition_p0 ?s')) p = Some v" using q by simp
  qed
qed

lemmas example_defs =
  cached_a_def loaded_a_def ready_a_def ready_ab_def settled_a_def newPlugin_def
  onLayoutReady_def loadSettings_ts_def lru_sets_def lru_new_def

lemmas handler_ts_defs =
  openDocument_ts_def fileOpen_ts_def showDocument_def onOpen_ts_def setCursor_ts_def
  moveCaret_def updateCursorPosition_ts_def readOldCursorPosition_def orOrigin_def
  saveSettings_ts_def callDebounced_def Let_def

lemmas handler_p0_defs =
  openDocument_p0_def fileOpen_p0_def showDocument_def onOpen_p0_def setCursor_p0_def
  moveCaret_def updateCursorPosition_p0_def readOldCursorPosition_def orOrigin_def
  saveSettings_p0_def callDebounced_def Let_def

lemmas lru_defs =
  lru_has_def lru_get_def lru_set_def lru_delete_def lru_without_def lru_maxSize_def

subsection \<open>Move notifications\<close>

text \<open>
  Claim C9. A move notification that arrives before the layout is ready, or while the file
  of the active view differs from the active file the plugin has recorded, is ignored:
  \<^verbatim>\<open>updateCursorPosition\<close> returns with the plugin unchanged, so the cache contents, their
  recency order and the pending save are as before. This holds in both files.
\<close>

theorem C9_stale_or_early_move_ignored:
  "\<not> layoutReady s \<or>
   (\<exists>view p. activeView s = Some view \<and> viewFile view = Some p \<and> p \<noteq> path (activeFile s)) \<Longrightarrow>
   updateCursorPosition_ts s = s \<and> updateCursorPosition_p0 s = s"
  by (auto simp: updateCursorPosition_ts_def updateCursorPosition_p0_def)

text \<open>The theorem at a notification from \<^verbatim>\<open>a.md\<close> while \<^verbatim>\<open>b.md\<close> is the active file, and at a
  notification before the layout is ready.\<close>

theorem C9_stale_or_early_move_ignored_witness:
  "updateCursorPosition_ts
     ((settled_a \<lparr>line = 5, ch = 10\<rparr> \<lparr>line = 3, ch = 4\<rparr>)
        \<lparr>activeFile := \<lparr>path = ''b.md'', initialCursorHasBeenSet = True\<rparr>\<rparr>) =
   (settled_a \<lparr>line = 5, ch = 10\<rparr> \<lparr>line = 3, ch = 4\<rparr>)
     \<lparr>activeFile := \<lparr>path = ''b.md'', initialCursorHasBeenSet = True\<rparr>\<rparr> \<and>
   updateCursorPosition_ts (cached_a \<lparr>line = 5, ch = 10\<rparr>) = cached_a \<lparr>line = 5, ch = 10\<rparr> \<and>
   updateCursorPosition_p0 (cached_a \<lparr>line = 5, ch = 10\<rparr>) = cached_a \<lparr>line = 5, ch = 10\<rparr>"
  using C9_stale_or_early_move_ignored
      [of "(settled_a \<lparr>line = 5, ch = 10\<rparr> \<lparr>line = 3, ch = 4\<rparr>)
             \<lparr>activeFile := \<lparr>path = ''b.md'', initialCursorHasBeenSet = True\<rparr>\<rparr>"]
    C9_stale_or_early_move_ignored [of "cached_a \<lparr>line = 5, ch = 10\<rparr>"]
  by (simp add: example_defs)

text \<open>In \<^verbatim>\<open>main.ts\<close> no move notification changes the position cached for the active file,
  whatever the state: the cache is written only with the position it already holds.\<close>

lemma updateCursorPosition_ts_keeps_position:
  "map_of (lru (updateCursorPosition_ts s)) (path (activeFile s)) =
     map_of (lru s) (path (activeFile s))"
  by (auto simp: updateCursorPosition_ts_def Let_def saveSettings_ts_fields readOld_fst
      readOld_map_of map_of_lru_set_same EditorPosition_eq_iff split: option.splits)

text \<open>In \<^verbatim>\<open>main.ts\<close> the state \<open>settled_a pos caret\<close> is the one after the stored settings are
  loaded, the layout is ready and \<^verbatim>\<open>a.md\<close> is opened with its caret at \<open>caret\<close>, away from the
  origin.\<close>

lemma settled_a_reached_ts:
  "\<not> (ch caret = 0 \<and> line caret = 0) \<Longrightarrow>
     openDocument_ts ''a.md'' caret (ready_a pos) = settled_a pos caret"
  by (simp add: example_defs handler_ts_defs lru_defs)

text \<open>
  Claim C3, at \<^verbatim>\<open>main.ts\<close>. The layout is ready, \<^verbatim>\<open>a.md\<close> is the active file and its initial
  cursor has been set. With (5, 10) cached and the caret at (3, 4), \<^verbatim>\<open>updateCursorPosition\<close>
  of \<^verbatim>\<open>main.ts\<close> leaves (5, 10) in the cache and requests no save; with nothing cached it
  caches nothing; with the caret at the cached (5, 10) it requests a save. The claim asks
  for the opposite in each case.
\<close>

theorem C3_main_ts_inverted_comparison:
  "lru (updateCursorPosition_ts (settled_a \<lparr>line = 5, ch = 10\<rparr> \<lparr>line = 3, ch = 4\<rparr>)) =
     [(''a.md'', \<lparr>line = 5, ch = 10\<rparr>)] \<and>
   saveRequests (updateCursorPosition_ts (settled_a \<lparr>line = 5, ch = 10\<rparr> \<lparr>line = 3, ch = 4\<rparr>)) = 0 \<and>
   lru (updateCursorPosition_ts ((settled_a \<lparr>line = 5, ch = 10\<rparr> \<lparr>line = 3, ch = 4\<rparr>)\<lparr>lru := []\<rparr>)) = [] \<and>
   saveRequests
     (updateCursorPosition_ts ((settled_a \<lparr>line = 5, ch = 10\<rparr> \<lparr>line = 3, ch = 4\<rparr>)\<lparr>lru := []\<rparr>)) = 0 \<and>
   saveRequests (updateCursorPosition_ts (settled_a \<lparr>line = 5, ch = 10\<rparr> \<lparr>line = 5, ch = 10\<rparr>)) = 1"
  by (simp add: example_defs handler_ts_defs lru_defs)

text \<open>\<^verbatim>\<open>unnamed/part_000\<close> at the same inputs does what the claim says.\<close>

lemma part_000_at_C3_input:
  "lru (updateCursorPosition_p0 (settled_a \<lparr>line = 5, ch = 10\<rparr> \<lparr>line = 3, ch = 4\<rparr>)) =
     [(''a.md'', \<lparr>line = 3, ch = 4\<rparr>)] \<and>
   saveRequests (updateCursorPosition_p0 (settled_a \<lparr>line = 5, ch = 10\<rparr> \<lparr>line = 3, ch = 4\<rparr>)) = 1 \<and>
   lru (updateCursorPosition_p0 ((settled_a \<lparr>line = 5, ch = 10\<rparr> \<lparr>line = 3, ch = 4\<rparr>)\<lparr>lru := []\<rparr>)) =
     [(''a.md'', \<lparr>line = 3, ch = 4\<rparr>)] \<and>
   saveRequests (updateCursorPosition_p0 (settled_a \<lparr>line = 5, ch = 10\<rparr> \<lparr>line = 5, ch = 10\<rparr>)) = 0"
  by (simp add: example_defs handler_p0_defs lru_defs)

subsection \<open>Opening a document\<close>

text \<open>
  Claim C2, at \<^verbatim>\<open>main.ts\<close>. \<^verbatim>\<open>a.md\<close> is cached at (5, 10), the layout is ready, and the
  document is opened with its caret at the origin. The handler moves the caret to (5, 10);
  the notification of that move reaches \<^verbatim>\<open>updateCursorPosition\<close>, which does not return
  where it logs that it skips the update, and \<^verbatim>\<open>saveSettings\<close> is called: a persistence
  request is issued for the restoration echo. The same request is issued when the
  notification for (5, 10) is handled after the handler of \<^verbatim>\<open>file-open\<close> has returned.
\<close>

theorem C2_main_ts_echo_requests_save:
  "saveRequests (ready_a \<lparr>line = 5, ch = 10\<rparr>) = 0 \<and>
   cursorMoves (openDocument_ts ''a.md'' \<lparr>line = 0, ch = 0\<rparr> (ready_a \<lparr>line = 5, ch = 10\<rparr>)) =
     [\<lparr>line = 5, ch = 10\<rparr>] \<and>
   saveRequests (openDocument_ts ''a.md'' \<lparr>line = 0, ch = 0\<rparr> (ready_a \<lparr>line = 5, ch = 10\<rparr>)) = 1 \<and>
   debounceSaveFn (openDocument_ts ''a.md'' \<lparr>line = 0, ch = 0\<rparr> (ready_a \<lparr>line = 5, ch = 10\<rparr>)) =
     Some Idle \<and>
   saveRequests (updateCursorPosition_ts (settled_a \<lparr>line = 5, ch = 10\<rparr> \<lparr>line = 5, ch = 10\<rparr>)) = 1"
  by (simp add: example_defs handler_ts_defs lru_defs)

text \<open>\<^verbatim>\<open>unnamed/part_000\<close> at the same input restores the position and requests no save.\<close>

lemma part_000_at_C2_input:
  "cursorMoves (openDocument_p0 ''a.md'' \<lparr>line = 0, ch = 0\<rparr> (ready_a \<lparr>line = 5, ch = 10\<rparr>)) =
     [\<lparr>line = 5, ch = 10\<rparr>] \<and>
   saveRequests (openDocument_p0 ''a.md'' \<lparr>line = 0, ch = 0\<rparr> (ready_a \<lparr>line = 5, ch = 10\<rparr>)) = 0 \<and>
   debounceSaveFn (openDocument_p0 ''a.md'' \<lparr>line = 0, ch = 0\<rparr> (ready_a \<lparr>line = 5, ch = 10\<rparr>)) =
     None"
  by (simp add: example_defs handler_p0_defs lru_defs)

text \<open>
  Claim C4, at \<^verbatim>\<open>main.ts\<close>. \<^verbatim>\<open>a.md\<close> is stored and cached at (5, 10) and is opened with its
  caret at (3, 4). \<^verbatim>\<open>onOpen\<close> of \<^verbatim>\<open>main.ts\<close> leaves (5, 10) in the cache and requests no save, where
  the claim has the cache hold (3, 4) and a save requested. The editor is not moved.
\<close>

theorem C4_main_ts_keeps_stored_position:
  "lru (openDocument_ts ''a.md'' \<lparr>line = 3, ch = 4\<rparr> (loaded_a \<lparr>line = 5, ch = 10\<rparr>)) =
     [(''a.md'', \<lparr>line = 5, ch = 10\<rparr>)] \<and>
   saveRequests (openDocument_ts ''a.md'' \<lparr>line = 3, ch = 4\<rparr> (loaded_a \<lparr>line = 5, ch = 10\<rparr>)) = 0 \<and>
   cursorMoves (openDocument_ts ''a.md'' \<lparr>line = 3, ch = 4\<rparr> (loaded_a \<lparr>line = 5, ch = 10\<rparr>)) = []"
  by (simp add: example_defs handler_ts_defs lru_defs)

text \<open>\<^verbatim>\<open>unnamed/part_000\<close> at the same input writes (3, 4) and requests a save.\<close>

lemma part_000_at_C4_input:
  "lru (openDocument_p0 ''a.md'' \<lparr>line = 3, ch = 4\<rparr> (loaded_a \<lparr>line = 5, ch = 10\<rparr>)) =
     [(''a.md'', \<lparr>line = 3, ch = 4\<rparr>)] \<and>
   saveRequests (openDocument_p0 ''a.md'' \<lparr>line = 3, ch = 4\<rparr> (loaded_a \<lparr>line = 5, ch = 10\<rparr>)) = 1 \<and>
   cursorMoves (openDocument_p0 ''a.md'' \<lparr>line = 3, ch = 4\<rparr> (loaded_a \<lparr>line = 5, ch = 10\<rparr>)) = []"
  by (simp add: example_defs handler_p0_defs lru_defs)

text \<open>
  Claim C10, at \<^verbatim>\<open>main.ts\<close>. Two documents are cached and the layout is ready; each is
  opened with its caret at the origin. In \<^verbatim>\<open>main.ts\<close> the notification of each restoration
  calls \<^verbatim>\<open>saveSettings\<close>, and after the second open a timer of the debounced save is
  pending: opens of cached documents do schedule a save there.
\<close>

theorem C10_main_ts_opens_schedule_save:
  "saveRequests (opens_ts [''a.md''] ready_ab) = 1 \<and>
   saveRequests (opens_ts [''a.md'', ''b.md''] ready_ab) = 2 \<and>
   timersStarted (opens_ts [''a.md'', ''b.md''] ready_ab) = 1 \<and>
   debounceSaveFn (opens_ts [''a.md'', ''b.md''] ready_ab) = Some Armed"
  by (simp add: opens_ts_def example_defs handler_ts_defs lru_defs)

text \<open>\<^verbatim>\<open>unnamed/part_000\<close> at the same input: the recency order changes, no save is requested
  and the settings keep the old order.\<close>

lemma part_000_at_C10_input:
  "saveRequests (opens_p0 [''a.md'', ''b.md''] ready_ab) = 0 \<and>
   timersStarted (opens_p0 [''a.md'', ''b.md''] ready_ab) = 0 \<and>
   debounceSaveFn (opens_p0 [''a.md'', ''b.md''] ready_ab) = None \<and>
   entriesAscending (lru (opens_p0 [''a.md''] ready_ab)) =
     [(''b.md'', \<lparr>line = 1, ch = 1\<rparr>), (''a.md'', \<lparr>line = 5, ch = 10\<rparr>)] \<and>
   settings (opens_p0 [''a.md''] ready_ab) = settings ready_ab"
  by (simp add: opens_p0_def example_defs handler_p0_defs lru_defs entriesAscending_def)

subsection \<open>The debounced save\<close>

text \<open>
  Claim C5, at \<^verbatim>\<open>main.ts\<close>. The stored settings hold a position for \<^verbatim>\<open>a.md\<close>, and \<^verbatim>\<open>saveSettings\<close>
  is called once (a burst of one call), on its own or by \<^verbatim>\<open>renameFile\<close> after it has moved
  the entry to \<^verbatim>\<open>b.md\<close>. \<^verbatim>\<open>saveSettings\<close> of \<^verbatim>\<open>main.ts\<close> creates the debounced function and
  returns without calling it: no timer is started, nothing fires, nothing is written, and
  the settings keep the entry of \<^verbatim>\<open>a.md\<close>. The call is lost.
\<close>

theorem C5_main_ts_first_request_lost:
  "saveRequests (burst_ts 1 (loaded_a \<lparr>line = 2, ch = 2\<rparr>)) = 1 \<and>
   timersStarted (burst_ts 1 (loaded_a \<lparr>line = 2, ch = 2\<rparr>)) = 0 \<and>
   debounceSaveFn (burst_ts 1 (loaded_a \<lparr>line = 2, ch = 2\<rparr>)) = Some Idle \<and>
   fireDebounced (burst_ts 1 (loaded_a \<lparr>line = 2, ch = 2\<rparr>)) = burst_ts 1 (loaded_a \<lparr>line = 2, ch = 2\<rparr>) \<and>
   lru (renameFile_ts ''b.md'' ''a.md'' (loaded_a \<lparr>line = 2, ch = 2\<rparr>)) =
     [(''b.md'', \<lparr>line = 2, ch = 2\<rparr>)] \<and>
   saveRequests (renameFile_ts ''b.md'' ''a.md'' (loaded_a \<lparr>line = 2, ch = 2\<rparr>)) = 1 \<and>
   timersStarted (renameFile_ts ''b.md'' ''a.md'' (loaded_a \<lparr>line = 2, ch = 2\<rparr>)) = 0 \<and>
   savedData (fireDebounced (renameFile_ts ''b.md'' ''a.md'' (loaded_a \<lparr>line = 2, ch = 2\<rparr>))) = [] \<and>
   fileCursors (settings (fireDebounced (renameFile_ts ''b.md'' ''a.md'' (loaded_a \<lparr>line = 2, ch = 2\<rparr>)))) =
     [\<lparr>file' = ''a.md'', cursor = \<lparr>line = 2, ch = 2\<rparr>\<rparr>]"
  by (simp add: example_defs burst_ts_def renameFile_ts_def renameEntry_def saveSettings_ts_def
      fireDebounced_def lru_defs Let_def)

text \<open>\<^verbatim>\<open>unnamed/part_000\<close> at the same input starts one timer, and its firing writes the
  cache.\<close>

lemma part_000_at_C5_input:
  "timersStarted (renameFile_p0 ''b.md'' ''a.md'' (loaded_a \<lparr>line = 2, ch = 2\<rparr>)) = 1 \<and>
   debounceSaveFn (renameFile_p0 ''b.md'' ''a.md'' (loaded_a \<lparr>line = 2, ch = 2\<rparr>)) = Some Armed \<and>
   savedData (fireDebounced (renameFile_p0 ''b.md'' ''a.md'' (loaded_a \<lparr>line = 2, ch = 2\<rparr>))) =
     [\<lparr>fileCursors = [\<lparr>file' = ''b.md'', cursor = \<lparr>line = 2, ch = 2\<rparr>\<rparr>]\<rparr>]"
  by (simp add: example_defs renameFile_p0_def renameEntry_def saveSettings_p0_def
      callDebounced_def fireDebounced_def lru_defs Let_def save_unfold serialize_def
      entriesAscending_def)

end
